theory Spec2Isabelle
  imports Main "HOL-Library.Sublist"
begin

section \<open>Data model\<close>

text \<open>
  The repository holds two variants of one React component, \<^verbatim>\<open>GroceryListApp\<close>:
  \<^verbatim>\<open>src/src/App.tsx\<close> (called variant A below) and \<^verbatim>\<open>src/unnamed/part_000\<close> (variant B).
  Their interfaces, their state and their three editing handlers are the same text; they
  differ in the default unit, in the export text and in the treatment of the unit
  \<^verbatim>\<open>Other\<close>. What is the same text is modelled once, what differs is modelled twice, with
  the suffixes \<open>_A\<close> and \<open>_B\<close>.

  A JavaScript string is modelled as a \<^typ>\<open>string\<close>; a character outside ASCII stands as
  its UTF-8 bytes. The source only concatenates strings, compares them for equality and
  pads the day of the month, which is ASCII. The numeric \<^verbatim>\<open>id\<close> of an item is an
  \<^typ>\<open>int\<close>: the source only compares ids with \<^verbatim>\<open>===\<close>.
\<close>

text \<open>An element of \<^verbatim>\<open>GroceryConfig.items\<close>: \<^verbatim>\<open>{ id: number; name: string }\<close>.\<close>

record CatalogItem =
  cat_id :: int
  cat_name :: string

text \<open>\<^verbatim>\<open>GroceryConfig.user\<close>.\<close>

record UserProfile =
  name :: string
  mobile :: string
  shopkeeperMobile :: string

text \<open>\<^verbatim>\<open>interface GroceryConfig\<close>.\<close>

record GroceryConfig =
  cfg_items :: "CatalogItem list"
  units :: "string list"
  user :: UserProfile

text \<open>\<^verbatim>\<open>interface GroceryItem\<close>.\<close>

record GroceryItem =
  item_id :: int
  item_name :: string
  unit :: string
  quantity :: string
  selected :: bool

text \<open>The \<^verbatim>\<open>toast\<close> state: \<^verbatim>\<open>{ show, message, type }\<close>.\<close>

record Toast =
  toast_show :: bool
  toast_message :: string
  toast_type :: string

text \<open>The five \<^verbatim>\<open>useState\<close> cells of the component, with their initial values.\<close>

record AppState =
  items :: "GroceryItem list"
  config :: "GroceryConfig option"
  loading :: bool
  showPreview :: bool
  toast :: Toast

definition noToast :: Toast where
  "noToast = \<lparr>toast_show = False, toast_message = [], toast_type = []\<rparr>"

definition initialState :: AppState where
  "initialState =
     \<lparr>items = [], config = None, loading = True, showPreview = False, toast = noToast\<rparr>"

text \<open>
  What \<^verbatim>\<open>new Date()\<close> gives, as far as \<^verbatim>\<open>formatDate\<close> reads it: the day of the month
  (\<^verbatim>\<open>getDate()\<close>, 1 to 31), the month (0 to 11, which \<^verbatim>\<open>toLocaleString\<close> names) and
  the year (\<^verbatim>\<open>getFullYear()\<close>).
\<close>

record Date =
  getDate :: nat
  getMonth :: nat
  getFullYear :: int

section \<open>Numbers as text\<close>

text \<open>
  \<^verbatim>\<open>String(n)\<close> and \<^verbatim>\<open>${n}\<close> on an integer: its decimal digits, most significant first,
  with a minus sign when negative.
\<close>

definition digit_char :: "nat \<Rightarrow> char" where
  "digit_char d = ''0123456789'' ! d"

function decimal :: "nat \<Rightarrow> string" where
  "decimal n = (if 10 \<le> n then decimal (n div 10) else []) @ [digit_char (n mod 10)]"
  by pat_completeness auto
termination
  by (relation "measure (\<lambda>n. n)") auto

declare decimal.simps [simp del]

definition decimal_int :: "int \<Rightarrow> string" where
  "decimal_int i = (if 0 \<le> i then decimal (nat i) else CHR ''-'' # decimal (nat (- i)))"

text \<open>\<^verbatim>\<open>s.padStart(n, c)\<close> with a one-character pad string.\<close>

definition padStart :: "nat \<Rightarrow> char \<Rightarrow> string \<Rightarrow> string" where
  "padStart n c s = replicate (n - length s) c @ s"

text \<open>\<^verbatim>\<open>c.repeat(n)\<close> with a one-character string.\<close>

definition repeat :: "char \<Rightarrow> nat \<Rightarrow> string" where
  "repeat c n = replicate n c"

section \<open>Loading the configuration\<close>

text \<open>The literal default units: \<^verbatim>\<open>'KG(s)'\<close> in variant A, \<^verbatim>\<open>'Kg(s)'\<close> in variant B.\<close>

definition initialItems_A :: "GroceryConfig \<Rightarrow> GroceryItem list" where
  "initialItems_A configData =
     map (\<lambda>item. \<lparr>item_id = cat_id item, item_name = cat_name item,
                  unit = ''KG(s)'', quantity = ''1'', selected = False\<rparr>)
         (cfg_items configData)"

definition initialItems_B :: "GroceryConfig \<Rightarrow> GroceryItem list" where
  "initialItems_B configData =
     map (\<lambda>item. \<lparr>item_id = cat_id item, item_name = cat_name item,
                  unit = ''Kg(s)'', quantity = ''1'', selected = False\<rparr>)
         (cfg_items configData)"

definition showToast :: "string \<Rightarrow> string \<Rightarrow> AppState \<Rightarrow> AppState" where
  "showToast msg ty s = s\<lparr>toast := \<lparr>toast_show = True, toast_message = msg, toast_type = ty\<rparr>\<rparr>"

text \<open>The callback that \<^verbatim>\<open>showToast\<close> hands to \<^verbatim>\<open>setTimeout\<close>.\<close>

definition toastTimeout :: "AppState \<Rightarrow> AppState" where
  "toastTimeout s = s\<lparr>toast := noToast\<rparr>"

text \<open>
  The effect of \<^verbatim>\<open>useEffect\<close>: the fetch either delivers a parsed configuration
  (\<open>Some configData\<close>) or fails (\<open>None\<close>), which runs the \<^verbatim>\<open>catch\<close> branch.
\<close>

definition loadConfig_A :: "GroceryConfig option \<Rightarrow> AppState \<Rightarrow> AppState" where
  "loadConfig_A fetched s =
     (case fetched of
        Some configData \<Rightarrow>
          s\<lparr>config := Some configData, items := initialItems_A configData, loading := False\<rparr>
      | None \<Rightarrow>
          (showToast ''Failed to load grocery items. Please refresh the page'' ''error'' s)
            \<lparr>loading := False\<rparr>)"

definition loadConfig_B :: "GroceryConfig option \<Rightarrow> AppState \<Rightarrow> AppState" where
  "loadConfig_B fetched s =
     (case fetched of
        Some configData \<Rightarrow>
          s\<lparr>config := Some configData, items := initialItems_B configData, loading := False\<rparr>
      | None \<Rightarrow>
          (showToast ''Failed to load grocery items. Please refresh the page'' ''error'' s)
            \<lparr>loading := False\<rparr>)"

section \<open>Selection and editing\<close>

text \<open>The three handlers, the same text in both variants.\<close>

definition handleCheckboxChange :: "int \<Rightarrow> AppState \<Rightarrow> AppState" where
  "handleCheckboxChange i s =
     s\<lparr>items := map (\<lambda>item. if item_id item = i then item\<lparr>selected := \<not> selected item\<rparr> else item)
                     (items s)\<rparr>"

definition handleUnitChange :: "int \<Rightarrow> string \<Rightarrow> AppState \<Rightarrow> AppState" where
  "handleUnitChange i u s =
     s\<lparr>items := map (\<lambda>item. if item_id item = i then item\<lparr>unit := u\<rparr> else item) (items s)\<rparr>"

definition handleQuantityChange :: "int \<Rightarrow> string \<Rightarrow> AppState \<Rightarrow> AppState" where
  "handleQuantityChange i q s =
     s\<lparr>items := map (\<lambda>item. if item_id item = i then item\<lparr>quantity := q\<rparr> else item) (items s)\<rparr>"

definition getSelectedCount :: "AppState \<Rightarrow> nat" where
  "getSelectedCount s = length (filter selected (items s))"

definition getSelectedItems :: "AppState \<Rightarrow> GroceryItem list" where
  "getSelectedItems s = filter selected (items s)"

section \<open>Export formatting\<close>

text \<open>
  \<^verbatim>\<open>date.toLocaleString('en-US', { month: 'short' })\<close> is the platform's table of
  abbreviated English month names, indexed by the month.
\<close>

definition monthShort :: "nat \<Rightarrow> string" where
  "monthShort m =
     [''Jan'', ''Feb'', ''Mar'', ''Apr'', ''May'', ''Jun'',
      ''Jul'', ''Aug'', ''Sep'', ''Oct'', ''Nov'', ''Dec''] ! m"

text \<open>\<^verbatim>\<open>formatDate\<close>, with the value of \<^verbatim>\<open>new Date()\<close> as its argument.\<close>

definition formatDate :: "Date \<Rightarrow> string" where
  "formatDate date =
     (let day = padStart 2 (CHR ''0'') (decimal (getDate date));
          month = monthShort (getMonth date);
          year = getFullYear date
      in day @ ''-'' @ month @ ''-'' @ decimal_int year)"

text \<open>\<^verbatim>\<open>formatItemDisplay\<close> exists in variant B only.\<close>

definition formatItemDisplay :: "GroceryItem \<Rightarrow> string" where
  "formatItemDisplay item =
     (if unit item = ''Other'' then quantity item @ '' '' @ item_name item
      else quantity item @ '' '' @ unit item @ '' '' @ item_name item)"

text \<open>
  The \<^verbatim>\<open>forEach\<close> loops of \<^verbatim>\<open>generateListText\<close>: the callback appends one line to
  \<^verbatim>\<open>text\<close>; \<open>index\<close> is the position of the first item that is left.
\<close>

fun forEach_A :: "GroceryItem list \<Rightarrow> nat \<Rightarrow> string \<Rightarrow> string" where
  "forEach_A [] index text = text"
| "forEach_A (item # rest) index text =
     forEach_A rest (index + 1)
       (text @ decimal (index + 1) @ '') '' @ quantity item @ '' '' @ unit item @ '' ''
             @ item_name item @ ''\<newline>'')"

fun forEach_B :: "GroceryItem list \<Rightarrow> nat \<Rightarrow> string \<Rightarrow> string" where
  "forEach_B [] index text = text"
| "forEach_B (item # rest) index text =
     forEach_B rest (index + 1)
       (text @ decimal (index + 1) @ '') '' @ formatItemDisplay item @ ''\<newline>'')"

text \<open>The four pictographs of variant B's header, as UTF-8.\<close>

definition emoji_calendar :: string where
  "emoji_calendar = [CHR 0xF0, CHR 0x9F, CHR 0x93, CHR 0x85]"

definition emoji_person :: string where
  "emoji_person = [CHR 0xF0, CHR 0x9F, CHR 0x91, CHR 0xA4]"

definition emoji_phone :: string where
  "emoji_phone = [CHR 0xF0, CHR 0x9F, CHR 0x93, CHR 0xB1]"

definition emoji_cart :: string where
  "emoji_cart = [CHR 0xF0, CHR 0x9F, CHR 0x9B, CHR 0x92]"

text \<open>
  \<^verbatim>\<open>generateListText\<close> builds its text in three stretches: the statements before the
  loop, the loop, and (in variant B) the statements after it. The first and the last are
  named here; \<open>now\<close> is the value of the \<^verbatim>\<open>new Date()\<close> inside the call of
  \<^verbatim>\<open>formatDate\<close>.
\<close>

definition header_A :: "Date \<Rightarrow> GroceryConfig \<Rightarrow> string" where
  "header_A now cfg =
     (let text = ''Date: '' @ formatDate now @ ''\<newline>'';
          text = text @ ''Name: '' @ name (user cfg) @ ''\<newline>'';
          text = text @ ''Contact No. - '' @ mobile (user cfg) @ ''\<newline>\<newline>'';
          text = text @ ''Grocery List:\<newline>'';
          text = text @ repeat (CHR ''='') 40 @ ''\<newline>\<newline>''
      in text)"

definition header_B :: "Date \<Rightarrow> GroceryConfig \<Rightarrow> string" where
  "header_B now cfg =
     (let text = emoji_calendar @ '' Date: '' @ formatDate now @ ''\<newline>'';
          text = text @ emoji_person @ '' Name: '' @ name (user cfg) @ ''\<newline>'';
          text = text @ emoji_phone @ '' Contact: '' @ mobile (user cfg) @ ''\<newline>\<newline>'';
          text = text @ emoji_cart @ '' *Grocery List*\<newline>'';
          text = text @ repeat (CHR ''-'') 35 @ ''\<newline>\<newline>''
      in text)"

definition footer_B :: "GroceryItem list \<Rightarrow> string" where
  "footer_B selectedItems =
     ''\<newline>'' @ repeat (CHR ''-'') 35 @ ''\<newline>''
       @ ''Total Items: '' @ decimal (length selectedItems)"

definition generateListText_A :: "Date \<Rightarrow> AppState \<Rightarrow> string" where
  "generateListText_A now s =
     (case config s of
        None \<Rightarrow> []
      | Some cfg \<Rightarrow>
          (let selectedItems = getSelectedItems s;
               text = header_A now cfg;
               text = forEach_A selectedItems 0 text
           in text))"

definition generateListText_B :: "Date \<Rightarrow> AppState \<Rightarrow> string" where
  "generateListText_B now s =
     (case config s of
        None \<Rightarrow> []
      | Some cfg \<Rightarrow>
          (let selectedItems = getSelectedItems s;
               text = header_B now cfg;
               text = forEach_B selectedItems 0 text;
               text = text @ footer_B selectedItems
           in text))"

section \<open>The view and the download\<close>

text \<open>\<^verbatim>\<open>handleSubmit\<close> and \<^verbatim>\<open>handleBackToList\<close>, the same text in both variants.\<close>

definition handleSubmit :: "AppState \<Rightarrow> AppState" where
  "handleSubmit s =
     (let selectedCount = getSelectedCount s
      in if selectedCount = 0 then showToast ''Please select at least one item'' ''warning'' s
         else s\<lparr>showPreview := True\<rparr>)"

definition handleBackToList :: "AppState \<Rightarrow> AppState" where
  "handleBackToList s = s\<lparr>showPreview := False\<rparr>"

text \<open>
  \<^verbatim>\<open>handleDownload\<close> saves a file and shows a notice. The saved file is the pair of the
  anchor's \<^verbatim>\<open>download\<close> attribute and the blob's text. The handler reads the clock
  twice: \<open>now\<close> inside \<^verbatim>\<open>generateListText\<close>, \<open>now'\<close> for the file name.
\<close>

record Download =
  file_name :: string
  file_text :: string

definition handleDownload_A :: "Date \<Rightarrow> Date \<Rightarrow> AppState \<Rightarrow> Download \<times> AppState" where
  "handleDownload_A now now' s =
     (let text = generateListText_A now s
      in (\<lparr>file_name = ''grocery-list-'' @ formatDate now' @ ''.txt'', file_text = text\<rparr>,
          showToast ''List downloaded successfully!'' ''success'' s))"

definition handleDownload_B :: "Date \<Rightarrow> Date \<Rightarrow> AppState \<Rightarrow> Download \<times> AppState" where
  "handleDownload_B now now' s =
     (let text = generateListText_B now s
      in (\<lparr>file_name = ''grocery-list-'' @ formatDate now' @ ''.txt'', file_text = text\<rparr>,
          showToast ''List downloaded successfully!'' ''success'' s))"

section \<open>Example states\<close>

text \<open>
  The example of the specification: a catalog of Milk, Bread and Eggs for the user A with
  the number 123; items 1 and 3 are selected, both with the quantity 2, item 1 in
  \<^verbatim>\<open>Kg(s)\<close> and item 3 with the unit \<^verbatim>\<open>Other\<close>. Each state is reached from the
  initial state by the handlers. In variant A the unit selector offers the configured
  units only, so the configuration lists \<^verbatim>\<open>Other\<close>.
\<close>

definition example_config :: GroceryConfig where
  "example_config =
     \<lparr>cfg_items = [\<lparr>cat_id = 1, cat_name = ''Milk''\<rparr>, \<lparr>cat_id = 2, cat_name = ''Bread''\<rparr>,
                   \<lparr>cat_id = 3, cat_name = ''Eggs''\<rparr>],
      units = [''Kg(s)'', ''Other''],
      user = \<lparr>name = ''A'', mobile = ''123'', shopkeeperMobile = ''456''\<rparr>\<rparr>"

definition example_date :: Date where
  "example_date = \<lparr>getDate = 3, getMonth = 10, getFullYear = 2026\<rparr>"

definition example_state_A :: AppState where
  "example_state_A =
     handleUnitChange 3 ''Other'' (handleUnitChange 1 ''Kg(s)''
       (handleQuantityChange 3 ''2'' (handleQuantityChange 1 ''2''
         (handleCheckboxChange 3 (handleCheckboxChange 1
           (loadConfig_A (Some example_config) initialState))))))"

definition example_state_B :: AppState where
  "example_state_B =
     handleUnitChange 3 ''Other'' (handleUnitChange 1 ''Kg(s)''
       (handleQuantityChange 3 ''2'' (handleQuantityChange 1 ''2''
         (handleCheckboxChange 3 (handleCheckboxChange 1
           (loadConfig_B (Some example_config) initialState))))))"

text \<open>A configuration in which two catalog items carry the same id.\<close>

definition duplicate_id_config :: GroceryConfig where
  "duplicate_id_config =
     \<lparr>cfg_items = [\<lparr>cat_id = 1, cat_name = ''Milk''\<rparr>, \<lparr>cat_id = 1, cat_name = ''Bread''\<rparr>],
      units = [''Kg(s)''],
      user = \<lparr>name = ''A'', mobile = ''123'', shopkeeperMobile = ''456''\<rparr>\<rparr>"

section \<open>Auxiliary facts\<close>

lemma example_state_A_eq:
  "example_state_A =
     \<lparr>items = [\<lparr>item_id = 1, item_name = ''Milk'', unit = ''Kg(s)'', quantity = ''2'', selected = True\<rparr>,
               \<lparr>item_id = 2, item_name = ''Bread'', unit = ''KG(s)'', quantity = ''1'', selected = False\<rparr>,
               \<lparr>item_id = 3, item_name = ''Eggs'', unit = ''Other'', quantity = ''2'', selected = True\<rparr>],
      config = Some example_config, loading = False, showPreview = False, toast = noToast\<rparr>"
  by (simp add: example_state_A_def loadConfig_A_def initialItems_A_def initialState_def
      handleCheckboxChange_def handleQuantityChange_def handleUnitChange_def example_config_def)

lemma example_state_B_eq:
  "example_state_B =
     \<lparr>items = [\<lparr>item_id = 1, item_name = ''Milk'', unit = ''Kg(s)'', quantity = ''2'', selected = True\<rparr>,
               \<lparr>item_id = 2, item_name = ''Bread'', unit = ''Kg(s)'', quantity = ''1'', selected = False\<rparr>,
               \<lparr>item_id = 3, item_name = ''Eggs'', unit = ''Other'', quantity = ''2'', selected = True\<rparr>],
      config = Some example_config, loading = False, showPreview = False, toast = noToast\<rparr>"
  by (simp add: example_state_B_def loadConfig_B_def initialItems_B_def initialState_def
      handleCheckboxChange_def handleQuantityChange_def handleUnitChange_def example_config_def)

lemma example_selected_A:
  "filter selected (items example_state_A) =
     [\<lparr>item_id = 1, item_name = ''Milk'', unit = ''Kg(s)'', quantity = ''2'', selected = True\<rparr>,
      \<lparr>item_id = 3, item_name = ''Eggs'', unit = ''Other'', quantity = ''2'', selected = True\<rparr>]"
  by (simp add: example_state_A_eq)

lemma example_selected_B:
  "filter selected (items example_state_B) =
     [\<lparr>item_id = 1, item_name = ''Milk'', unit = ''Kg(s)'', quantity = ''2'', selected = True\<rparr>,
      \<lparr>item_id = 3, item_name = ''Eggs'', unit = ''Other'', quantity = ''2'', selected = True\<rparr>]"
  by (simp add: example_state_B_eq)

lemma example_config_A: "config example_state_A = Some example_config"
  by (simp add: example_state_A_eq)

lemma example_config_B: "config example_state_B = Some example_config"
  by (simp add: example_state_B_eq)

lemma repeat_40: "repeat (CHR ''='') 40 = ''========================================''"
  by (simp add: repeat_def eval_nat_numeral)

lemma repeat_35: "repeat (CHR ''-'') 35 = ''-----------------------------------''"
  by (simp add: repeat_def eval_nat_numeral)

lemma example_header_A:
  "header_A example_date example_config =
     ''Date: 03-Nov-2026\<newline>Name: A\<newline>Contact No. - 123\<newline>\<newline>Grocery List:\<newline>''
     @ ''========================================\<newline>\<newline>''"
  by (simp add: header_A_def example_date_def example_config_def formatDate_def padStart_def
      monthShort_def decimal_int_def decimal.simps digit_char_def repeat_40 repeat_35)

lemma example_text_A:
  "generateListText_A example_date example_state_A =
     ''Date: 03-Nov-2026\<newline>Name: A\<newline>Contact No. - 123\<newline>\<newline>Grocery List:\<newline>''
     @ ''========================================\<newline>\<newline>''
     @ ''1) 2 Kg(s) Milk\<newline>2) 2 Other Eggs\<newline>''"
  by (simp add: generateListText_A_def example_config_A example_selected_A getSelectedItems_def
      example_header_A decimal.simps digit_char_def)

lemma example_header_B:
  "header_B example_date example_config =
     emoji_calendar @ '' Date: 03-Nov-2026\<newline>'' @ emoji_person @ '' Name: A\<newline>''
     @ emoji_phone @ '' Contact: 123\<newline>\<newline>'' @ emoji_cart @ '' *Grocery List*\<newline>''
     @ ''-----------------------------------\<newline>\<newline>''"
  by (simp add: header_B_def example_date_def example_config_def formatDate_def padStart_def
      monthShort_def decimal_int_def decimal.simps digit_char_def repeat_40 repeat_35)

lemma example_text_B:
  "generateListText_B example_date example_state_B =
     emoji_calendar @ '' Date: 03-Nov-2026\<newline>'' @ emoji_person @ '' Name: A\<newline>''
     @ emoji_phone @ '' Contact: 123\<newline>\<newline>'' @ emoji_cart @ '' *Grocery List*\<newline>''
     @ ''-----------------------------------\<newline>\<newline>''
     @ ''1) 2 Kg(s) Milk\<newline>2) 2 Eggs\<newline>''
     @ ''\<newline>-----------------------------------\<newline>Total Items: 2''"
  by (simp add: generateListText_B_def example_config_B example_selected_B getSelectedItems_def
      example_header_B footer_B_def formatItemDisplay_def repeat_35 decimal.simps
      digit_char_def)

lemma forEach_A_closed:
  "forEach_A xs index tx =
     tx @ concat (map (\<lambda>(k, item). decimal (k + 1) @ '') '' @ quantity item @ '' '' @ unit item
                          @ '' '' @ item_name item @ ''\<newline>'') (enumerate index xs))"
  by (induction xs arbitrary: index tx) simp_all

lemma forEach_B_closed:
  "forEach_B xs index tx =
     tx @ concat (map (\<lambda>(k, item). decimal (k + 1) @ '') '' @ formatItemDisplay item
                          @ ''\<newline>'') (enumerate index xs))"
  by (induction xs arbitrary: index tx) simp_all

lemma forEach_A_text: "forEach_A xs index tx = tx @ forEach_A xs index []"
  by (simp add: forEach_A_closed)

lemma forEach_B_text: "forEach_B xs index tx = tx @ forEach_B xs index []"
  by (simp add: forEach_B_closed)

lemma forEach_A_append:
  "forEach_A (xs @ ys) index tx = forEach_A ys (index + length xs) (forEach_A xs index tx)"
  by (induction xs arbitrary: index tx) simp_all

lemma forEach_B_append:
  "forEach_B (xs @ ys) index tx = forEach_B ys (index + length xs) (forEach_B xs index tx)"
  by (induction xs arbitrary: index tx) simp_all

lemma map_keyed_absent:
  "i \<notin> item_id ` set xs \<Longrightarrow> map (\<lambda>item. if item_id item = i then f item else item) xs = xs"
  by (induction xs) auto

lemma filter_neq_zip_same: "filter (\<lambda>(a, b). a \<noteq> b) (zip xs xs) = []"
  by (induction xs) simp_all

lemma keyed_update_changes_le1:
  "distinct (map item_id xs) \<Longrightarrow>
   length (filter (\<lambda>(a, b). a \<noteq> b)
             (zip xs (map (\<lambda>item. if item_id item = i then f item else item) xs))) \<le> Suc 0"
proof (induction xs)
  case Nil
  then show ?case by simp
next
  case (Cons x xs)
  show ?case
  proof (cases "item_id x = i")
    case True
    with Cons.prems have "i \<notin> item_id ` set xs"
      by simp
    then have "map (\<lambda>item. if item_id item = i then f item else item) xs = xs"
      by (rule map_keyed_absent)
    then show ?thesis
      by (simp add: filter_neq_zip_same)
  next
    case False
    with Cons show ?thesis by simp
  qed
qed

lemma decimal_1digit: "n < 10 \<Longrightarrow> decimal n = [digit_char n]"
  by (subst decimal.simps) simp

lemma decimal_2digit:
  "10 \<le> n \<Longrightarrow> n < 100 \<Longrightarrow> decimal n = [digit_char (n div 10), digit_char (n mod 10)]"
  by (subst decimal.simps) (simp add: decimal_1digit)

lemma decimal_3digit:
  "100 \<le> n \<Longrightarrow> n < 1000 \<Longrightarrow>
   decimal n = [digit_char (n div 100), digit_char (n div 10 mod 10), digit_char (n mod 10)]"
  by (subst decimal.simps) (simp add: decimal_2digit div_mult2_eq [symmetric])

lemma decimal_4digit:
  "1000 \<le> n \<Longrightarrow> n < 10000 \<Longrightarrow>
   decimal n = [digit_char (n div 1000), digit_char (n div 100 mod 10),
                      digit_char (n div 10 mod 10), digit_char (n mod 10)]"
  by (subst decimal.simps) (simp add: decimal_3digit div_mult2_eq [symmetric])

lemma monthShort_cases:
  "m < 12 \<Longrightarrow> monthShort m \<in> set [''Jan'', ''Feb'', ''Mar'', ''Apr'', ''May'', ''Jun'',
                                    ''Jul'', ''Aug'', ''Sep'', ''Oct'', ''Nov'', ''Dec'']"
  unfolding monthShort_def by (rule nth_mem) simp

lemma digit_char_digit: "k < 10 \<Longrightarrow> digit_char k \<in> set ''0123456789''"
  unfolding digit_char_def by (rule nth_mem) simp

section \<open>The export text\<close>

text \<open>
  Claim C1, as amended. When a configuration is loaded, the export text is the header
  followed by one line for each entry with \<open>selected = True\<close>, in the order of the
  entry list, the line of the k-th such entry (counting from 0) starting with the number
  k + 1. In variant B the text goes on with a rule and ends with \<^verbatim>\<open>Total Items: \<close>
  and the number of selected entries. In variant A the text ends with the last numbered
  line: that variant writes no total.
\<close>

theorem generateListText_lists_selected:
  assumes "config s = Some cfg"
  shows "generateListText_B now s =
           header_B now cfg
           @ concat (map (\<lambda>(k, item). decimal (k + 1) @ '') '' @ formatItemDisplay item @ ''\<newline>'')
                         (enumerate 0 (filter selected (items s))))
           @ ''\<newline>'' @ repeat (CHR ''-'') 35 @ ''\<newline>''
           @ ''Total Items: '' @ decimal (length (filter selected (items s)))
       \<and> suffix (''Total Items: '' @ decimal (length (filter selected (items s))))
                (generateListText_B now s)
       \<and> generateListText_A now s =
           header_A now cfg
           @ concat (map (\<lambda>(k, item). decimal (k + 1) @ '') '' @ quantity item @ '' '' @ unit item
                                        @ '' '' @ item_name item @ ''\<newline>'')
                         (enumerate 0 (filter selected (items s))))"
proof -
  have b: "generateListText_B now s =
           header_B now cfg
           @ concat (map (\<lambda>(k, item). decimal (k + 1) @ '') '' @ formatItemDisplay item @ ''\<newline>'')
                         (enumerate 0 (filter selected (items s))))
           @ ''\<newline>'' @ repeat (CHR ''-'') 35 @ ''\<newline>''
           @ ''Total Items: '' @ decimal (length (filter selected (items s)))"
    using assms
    by (simp add: generateListText_B_def getSelectedItems_def footer_B_def forEach_B_closed Let_def)
  have e: "suffix (''Total Items: '' @ decimal (length (filter selected (items s))))
                (generateListText_B now s)"
    unfolding b suffix_def by (metis append.assoc)
  have a: "generateListText_A now s =
           header_A now cfg
           @ concat (map (\<lambda>(k, item). decimal (k + 1) @ '') '' @ quantity item @ '' '' @ unit item
                                        @ '' '' @ item_name item @ ''\<newline>'')
                         (enumerate 0 (filter selected (items s))))"
    using assms
    by (simp add: generateListText_A_def getSelectedItems_def forEach_A_closed Let_def)
  show ?thesis
    by (intro conjI b e a)
qed

text \<open>The theorem at the example: two numbered lines, and the total 2 in variant B.\<close>

theorem generateListText_lists_selected_witness:
  "config example_state_B = Some example_config
   \<and> suffix ''Total Items: 2'' (generateListText_B example_date example_state_B)
   \<and> generateListText_A example_date example_state_B =
       header_A example_date example_config @ ''1) 2 Kg(s) Milk\<newline>2) 2 Other Eggs\<newline>''"
proof -
  have h: "config example_state_B = Some example_config"
    by (rule example_config_B)
  note w = generateListText_lists_selected [OF h, of example_date]
  from w [THEN conjunct2, THEN conjunct1]
  have e: "suffix ''Total Items: 2'' (generateListText_B example_date example_state_B)"
    by (simp add: example_selected_B decimal.simps digit_char_def)
  from w [THEN conjunct2, THEN conjunct2]
  have a: "generateListText_A example_date example_state_B =
       header_A example_date example_config @ ''1) 2 Kg(s) Milk\<newline>2) 2 Other Eggs\<newline>''"
    by (simp add: example_selected_B decimal.simps digit_char_def)
  show ?thesis
    by (intro conjI h e a)
qed

text \<open>
  Claim C1 as it is written fails in variant A: at the example two entries are selected,
  and the text ends with the line of the second, not with a count.
\<close>

theorem generateListText_A_total_counterexample:
  "getSelectedCount example_state_A = 2
   \<and> \<not> suffix (''Total Items: '' @ decimal 2) (generateListText_A example_date example_state_A)
   \<and> \<not> suffix (decimal 2) (generateListText_A example_date example_state_A)"
proof -
  have "getSelectedCount example_state_A = 2"
    by (simp add: getSelectedCount_def example_selected_A)
  moreover have "\<not> suffix (''Total Items: '' @ decimal 2)
                    (generateListText_A example_date example_state_A)"
    by (simp add: example_text_A decimal.simps digit_char_def suffix_to_prefix)
  moreover have "\<not> suffix (decimal 2) (generateListText_A example_date example_state_A)"
    by (simp add: example_text_A decimal.simps digit_char_def suffix_to_prefix)
  ultimately show ?thesis
    by (intro conjI)
qed

text \<open>
  Claim C2, as amended. Let \<open>item\<close> be the k-th selected entry (counting from 0). In
  variant B the export text is the header, the lines of the k entries before it, the
  line of \<open>item\<close>, the lines of the entries after it, and the footer; the line of
  \<open>item\<close> is its number k + 1, a parenthesis, and then quantity, unit and name
  separated by blanks, or quantity and name alone when the unit is \<^verbatim>\<open>Other\<close>. In variant
  A the line always holds quantity, unit and name, also when the unit is \<^verbatim>\<open>Other\<close>.
\<close>

theorem selected_entry_line:
  assumes "config s = Some cfg" and "k < length (getSelectedItems s)"
    and "item = getSelectedItems s ! k"
  shows "generateListText_B now s =
           header_B now cfg @ forEach_B (take k (getSelectedItems s)) 0 []
           @ decimal (k + 1) @ '') ''
           @ (if unit item = ''Other'' then quantity item @ '' '' @ item_name item
              else quantity item @ '' '' @ unit item @ '' '' @ item_name item) @ ''\<newline>''
           @ forEach_B (drop (k + 1) (getSelectedItems s)) (k + 1) [] @ footer_B (getSelectedItems s)
       \<and> generateListText_A now s =
           header_A now cfg @ forEach_A (take k (getSelectedItems s)) 0 []
           @ decimal (k + 1) @ '') ''
           @ quantity item @ '' '' @ unit item @ '' '' @ item_name item @ ''\<newline>''
           @ forEach_A (drop (k + 1) (getSelectedItems s)) (k + 1) []"
proof -
  let ?sel = "getSelectedItems s"
  have split: "?sel = take k ?sel @ item # drop (k + 1) ?sel"
    using assms(2,3) by (simp add: id_take_nth_drop)
  have lk: "length (take k ?sel) = k"
    using assms(2) by simp
  have "forEach_B ?sel 0 (header_B now cfg) =
          forEach_B (item # drop (k + 1) ?sel) k (forEach_B (take k ?sel) 0 (header_B now cfg))"
    by (subst split, subst forEach_B_append) (simp only: lk add_0)
  also have "\<dots> = header_B now cfg @ forEach_B (take k ?sel) 0 []
           @ decimal (k + 1) @ '') '' @ formatItemDisplay item @ ''\<newline>''
           @ forEach_B (drop (k + 1) ?sel) (k + 1) []"
    by (simp add: forEach_B_text [of _ _ "_ @ _"] forEach_B_text [of _ _ "header_B now cfg"])
  finally have b: "generateListText_B now s =
           header_B now cfg @ forEach_B (take k (getSelectedItems s)) 0 []
           @ decimal (k + 1) @ '') ''
           @ (if unit item = ''Other'' then quantity item @ '' '' @ item_name item
              else quantity item @ '' '' @ unit item @ '' '' @ item_name item) @ ''\<newline>''
           @ forEach_B (drop (k + 1) (getSelectedItems s)) (k + 1) [] @ footer_B (getSelectedItems s)"
    using assms(1) by (simp add: generateListText_B_def Let_def formatItemDisplay_def)
  have "forEach_A ?sel 0 (header_A now cfg) =
          forEach_A (item # drop (k + 1) ?sel) k (forEach_A (take k ?sel) 0 (header_A now cfg))"
    by (subst split, subst forEach_A_append) (simp only: lk add_0)
  also have "\<dots> = header_A now cfg @ forEach_A (take k ?sel) 0 []
           @ decimal (k + 1) @ '') '' @ quantity item @ '' '' @ unit item @ '' ''
           @ item_name item @ ''\<newline>'' @ forEach_A (drop (k + 1) ?sel) (k + 1) []"
    by (simp add: forEach_A_text [of _ _ "_ @ _"] forEach_A_text [of _ _ "header_A now cfg"])
  finally have a: "generateListText_A now s =
           header_A now cfg @ forEach_A (take k (getSelectedItems s)) 0 []
           @ decimal (k + 1) @ '') ''
           @ quantity item @ '' '' @ unit item @ '' '' @ item_name item @ ''\<newline>''
           @ forEach_A (drop (k + 1) (getSelectedItems s)) (k + 1) []"
    using assms(1) by (simp add: generateListText_A_def Let_def)
  show ?thesis
    by (intro conjI b a)
qed

text \<open>The theorem at the example, for the second selected entry, Eggs with the unit \<^verbatim>\<open>Other\<close>.\<close>

theorem selected_entry_line_witness:
  "config example_state_B = Some example_config
   \<and> 1 < length (getSelectedItems example_state_B)
   \<and> unit (getSelectedItems example_state_B ! 1) = ''Other''
   \<and> generateListText_B example_date example_state_B =
       header_B example_date example_config @ ''1) 2 Kg(s) Milk\<newline>'' @ ''2) 2 Eggs\<newline>''
       @ footer_B (getSelectedItems example_state_B)"
proof -
  have h1: "config example_state_B = Some example_config"
    by (rule example_config_B)
  have h2: "1 < length (getSelectedItems example_state_B)"
    by (simp add: example_selected_B getSelectedItems_def)
  have h3: "getSelectedItems example_state_B ! 1 = getSelectedItems example_state_B ! 1"
    by (rule refl)
  have u: "unit (getSelectedItems example_state_B ! 1) = ''Other''"
    by (simp add: example_selected_B getSelectedItems_def)
  from selected_entry_line [OF h1 h2 h3, of example_date, THEN conjunct1]
  have b: "generateListText_B example_date example_state_B =
       header_B example_date example_config @ ''1) 2 Kg(s) Milk\<newline>'' @ ''2) 2 Eggs\<newline>''
       @ footer_B (getSelectedItems example_state_B)"
    by (simp add: example_selected_B getSelectedItems_def formatItemDisplay_def
        decimal.simps digit_char_def)
  show ?thesis
    by (intro conjI h1 h2 u b)
qed

text \<open>
  Claim C2 as it is written fails in variant A: the second selected entry of the example
  has the unit \<^verbatim>\<open>Other\<close>, and its line shows the unit.
\<close>

theorem line_with_unit_Other_counterexample:
  "unit (getSelectedItems example_state_A ! 1) = ''Other''
   \<and> generateListText_A example_date example_state_A =
       header_A example_date example_config @ ''1) 2 Kg(s) Milk\<newline>'' @ ''2) 2 Other Eggs\<newline>''
   \<and> generateListText_A example_date example_state_A \<noteq>
       header_A example_date example_config @ ''1) 2 Kg(s) Milk\<newline>'' @ ''2) 2 Eggs\<newline>''"
  by (simp add: example_text_A example_header_A getSelectedItems_def example_selected_A)

text \<open>
  Claim C10. Without a configuration, \<^verbatim>\<open>generateListText\<close> returns the empty string in
  both variants, whatever the entries and their selection are.
\<close>

theorem generateListText_without_config:
  "config s = None \<Longrightarrow> generateListText_A now s = [] \<and> generateListText_B now s = []"
  by (simp add: generateListText_A_def generateListText_B_def)

text \<open>The theorem at the example state with its configuration taken away.\<close>

theorem generateListText_without_config_witness:
  "config (example_state_B\<lparr>config := None\<rparr>) = None
   \<and> filter selected (items (example_state_B\<lparr>config := None\<rparr>)) \<noteq> []
   \<and> generateListText_A example_date (example_state_B\<lparr>config := None\<rparr>) = []
   \<and> generateListText_B example_date (example_state_B\<lparr>config := None\<rparr>) = []"
proof -
  have h: "config (example_state_B\<lparr>config := None\<rparr>) = None"
    by simp
  have n: "filter selected (items (example_state_B\<lparr>config := None\<rparr>)) \<noteq> []"
    by (simp add: example_selected_B)
  note w = generateListText_without_config [OF h, of example_date]
  show ?thesis
    by (intro conjI h n w [THEN conjunct1] w [THEN conjunct2])
qed

section \<open>Loading\<close>

text \<open>
  Claim C4. A configuration with N catalog items gives, in both variants, exactly N
  entries; the k-th entry has the id and the name of the k-th catalog item, the default
  unit of the variant, the quantity 1, and is not selected. These entries are the entry
  list after a successful load.
\<close>

theorem initialItems_one_per_catalog_item:
  "length (initialItems_A cfg) = length (cfg_items cfg)
   \<and> length (initialItems_B cfg) = length (cfg_items cfg)
   \<and> (\<forall>k < length (cfg_items cfg).
         initialItems_A cfg ! k =
           \<lparr>item_id = cat_id (cfg_items cfg ! k), item_name = cat_name (cfg_items cfg ! k),
            unit = ''KG(s)'', quantity = ''1'', selected = False\<rparr>
       \<and> initialItems_B cfg ! k =
           \<lparr>item_id = cat_id (cfg_items cfg ! k), item_name = cat_name (cfg_items cfg ! k),
            unit = ''Kg(s)'', quantity = ''1'', selected = False\<rparr>)
   \<and> items (loadConfig_A (Some cfg) s) = initialItems_A cfg
   \<and> items (loadConfig_B (Some cfg) s) = initialItems_B cfg"
  by (simp add: initialItems_A_def initialItems_B_def loadConfig_A_def loadConfig_B_def)

text \<open>The theorem at the example configuration, for its third item.\<close>

theorem initialItems_one_per_catalog_item_witness:
  "(2::nat) < length (cfg_items example_config)
   \<and> length (initialItems_B example_config) = 3
   \<and> initialItems_A example_config ! 2 =
       \<lparr>item_id = 3, item_name = ''Eggs'', unit = ''KG(s)'', quantity = ''1'', selected = False\<rparr>
   \<and> initialItems_B example_config ! 2 =
       \<lparr>item_id = 3, item_name = ''Eggs'', unit = ''Kg(s)'', quantity = ''1'', selected = False\<rparr>"
proof -
  have h: "(2::nat) < length (cfg_items example_config)"
    by (simp add: example_config_def)
  note w = initialItems_one_per_catalog_item [of example_config initialState]
  from w [THEN conjunct2, THEN conjunct1]
  have l: "length (initialItems_B example_config) = 3"
    by (simp add: example_config_def)
  from w [THEN conjunct2, THEN conjunct2, THEN conjunct1, rule_format, OF h]
  have a: "initialItems_A example_config ! 2 =
       \<lparr>item_id = 3, item_name = ''Eggs'', unit = ''KG(s)'', quantity = ''1'', selected = False\<rparr>"
    and b: "initialItems_B example_config ! 2 =
       \<lparr>item_id = 3, item_name = ''Eggs'', unit = ''Kg(s)'', quantity = ''1'', selected = False\<rparr>"
    by (simp_all add: example_config_def)
  show ?thesis
    by (intro conjI h l a b)
qed

section \<open>Editing\<close>

text \<open>
  Claim C5. Toggling the selection twice with the same id gives back the state it started
  from: the entry with that id has its original \<open>selected\<close> value, and every other entry,
  like every other part of the state, is unchanged.
\<close>

theorem toggle_twice:
  "handleCheckboxChange i (handleCheckboxChange i s) = s"
proof -
  have "map ((\<lambda>item. if item_id item = i then item\<lparr>selected := \<not> selected item\<rparr> else item) \<circ>
             (\<lambda>item. if item_id item = i then item\<lparr>selected := \<not> selected item\<rparr> else item)) xs = xs"
    for xs :: "GroceryItem list"
    by (induction xs) simp_all
  then show ?thesis
    by (simp add: handleCheckboxChange_def)
qed

text \<open>
  Claim C6, as amended. One call of any of the three handlers keeps the length of the
  entry list, and on every entry list, with or without repeated ids, it leaves each
  entry whose id is not the given one exactly as it was. When the ids of the entries are
  pairwise distinct, at most one position of the list differs between input and output.
\<close>

theorem handlers_change_at_most_one:
  assumes "s' = handleCheckboxChange i s \<or> s' = handleUnitChange i u s \<or> s' = handleQuantityChange i q s"
  shows "length (items s') = length (items s)
       \<and> (\<forall>k < length (items s). item_id (items s ! k) \<noteq> i \<longrightarrow> items s' ! k = items s ! k)
       \<and> (distinct (map item_id (items s)) \<longrightarrow>
            length (filter (\<lambda>(a, b). a \<noteq> b) (zip (items s) (items s'))) \<le> 1)"
proof -
  have l: "length (items s') = length (items s)"
    using assms
    by (auto simp: handleCheckboxChange_def handleUnitChange_def handleQuantityChange_def)
  have f: "\<forall>k < length (items s). item_id (items s ! k) \<noteq> i \<longrightarrow> items s' ! k = items s ! k"
    using assms
    by (auto simp: handleCheckboxChange_def handleUnitChange_def handleQuantityChange_def)
  have c: "distinct (map item_id (items s)) \<longrightarrow>
            length (filter (\<lambda>(a, b). a \<noteq> b) (zip (items s) (items s'))) \<le> 1"
    using assms
    by (auto simp: handleCheckboxChange_def handleUnitChange_def handleQuantityChange_def
        keyed_update_changes_le1)
  show ?thesis
    by (intro conjI l f c)
qed

text \<open>
  The theorem at the example state, whose ids are 1, 2 and 3, for a change of the
  quantity of item 3: at most one position differs and the entries at positions 0 and 1
  stay. And at the state loaded from the configuration with the id 1 twice, whose ids
  are not distinct, for a change of the unit of id 2: neither entry has that id, and
  both stay.
\<close>

theorem handlers_change_at_most_one_witness:
  "distinct (map item_id (items example_state_B))
   \<and> length (filter (\<lambda>(a, b). a \<noteq> b)
        (zip (items example_state_B) (items (handleQuantityChange 3 ''5'' example_state_B)))) \<le> 1
   \<and> items (handleQuantityChange 3 ''5'' example_state_B) ! 0 = items example_state_B ! 0
   \<and> items (handleQuantityChange 3 ''5'' example_state_B) ! 1 = items example_state_B ! 1
   \<and> \<not> distinct (map item_id (items (loadConfig_A (Some duplicate_id_config) initialState)))
   \<and> items (handleUnitChange 2 ''Other'' (loadConfig_A (Some duplicate_id_config) initialState)) ! 0
       = items (loadConfig_A (Some duplicate_id_config) initialState) ! 0
   \<and> items (handleUnitChange 2 ''Other'' (loadConfig_A (Some duplicate_id_config) initialState)) ! 1
       = items (loadConfig_A (Some duplicate_id_config) initialState) ! 1"
proof -
  let ?d = "loadConfig_A (Some duplicate_id_config) initialState"
  have h1: "distinct (map item_id (items example_state_B))"
    by (simp add: example_state_B_eq)
  have h2: "handleQuantityChange 3 ''5'' example_state_B = handleCheckboxChange 3 example_state_B
            \<or> handleQuantityChange 3 ''5'' example_state_B = handleUnitChange 3 [] example_state_B
            \<or> handleQuantityChange 3 ''5'' example_state_B = handleQuantityChange 3 ''5'' example_state_B"
    by simp
  note w = handlers_change_at_most_one [OF h2]
  have k0: "0 < length (items example_state_B)" "item_id (items example_state_B ! 0) \<noteq> 3"
    and k1: "1 < length (items example_state_B)" "item_id (items example_state_B ! 1) \<noteq> 3"
    by (simp_all add: example_state_B_eq)
  have g2: "handleUnitChange 2 ''Other'' ?d = handleCheckboxChange 2 ?d
            \<or> handleUnitChange 2 ''Other'' ?d = handleUnitChange 2 ''Other'' ?d
            \<or> handleUnitChange 2 ''Other'' ?d = handleQuantityChange 2 [] ?d"
    by simp
  note v = handlers_change_at_most_one [OF g2]
  have nd: "\<not> distinct (map item_id (items ?d))"
    by (simp add: loadConfig_A_def initialItems_A_def duplicate_id_config_def)
  have j0: "0 < length (items ?d)" "item_id (items ?d ! 0) \<noteq> 2"
    and j1: "1 < length (items ?d)" "item_id (items ?d ! 1) \<noteq> 2"
    by (simp_all add: loadConfig_A_def initialItems_A_def duplicate_id_config_def)
  show ?thesis
    by (intro conjI h1 w [THEN conjunct2, THEN conjunct2, rule_format, OF h1]
        w [THEN conjunct2, THEN conjunct1, rule_format, OF k0]
        w [THEN conjunct2, THEN conjunct1, rule_format, OF k1]
        nd
        v [THEN conjunct2, THEN conjunct1, rule_format, OF j0]
        v [THEN conjunct2, THEN conjunct1, rule_format, OF j1])
qed

text \<open>
  Claim C6 as it is written fails on a list with a repeated id: the configuration is not
  checked for repeated ids, and with two catalog items of id 1 one toggle of id 1 changes
  both entries.
\<close>

theorem repeated_id_counterexample:
  "length (filter (\<lambda>(a, b). a \<noteq> b)
     (zip (items (loadConfig_A (Some duplicate_id_config) initialState))
          (items (handleCheckboxChange 1 (loadConfig_A (Some duplicate_id_config) initialState))))) = 2
   \<and> \<not> length (filter (\<lambda>(a, b). a \<noteq> b)
     (zip (items (loadConfig_A (Some duplicate_id_config) initialState))
          (items (handleCheckboxChange 1 (loadConfig_A (Some duplicate_id_config) initialState))))) \<le> 1"
  by (simp add: loadConfig_A_def initialItems_A_def duplicate_id_config_def initialState_def
      handleCheckboxChange_def)

text \<open>
  Claim C7. Changing the unit of the entries with a given id to \<^verbatim>\<open>Other\<close> and then to
  \<open>u\<close> leaves every quantity string as it was; an entry with that id ends with the unit
  \<open>u\<close> and is otherwise unchanged, so it is the original entry when its unit was \<open>u\<close>;
  an entry with another id is unchanged.
\<close>

theorem unit_to_Other_and_back:
  "length (items (handleUnitChange i u (handleUnitChange i ''Other'' s))) = length (items s)
   \<and> map quantity (items (handleUnitChange i u (handleUnitChange i ''Other'' s)))
       = map quantity (items s)
   \<and> (\<forall>k < length (items s).
         (item_id (items s ! k) = i \<longrightarrow>
            items (handleUnitChange i u (handleUnitChange i ''Other'' s)) ! k
              = (items s ! k)\<lparr>unit := u\<rparr>)
       \<and> (item_id (items s ! k) = i \<and> unit (items s ! k) = u \<longrightarrow>
            items (handleUnitChange i u (handleUnitChange i ''Other'' s)) ! k = items s ! k)
       \<and> (item_id (items s ! k) \<noteq> i \<longrightarrow>
            items (handleUnitChange i u (handleUnitChange i ''Other'' s)) ! k = items s ! k))"
  by (auto simp: handleUnitChange_def)

text \<open>
  The theorem at the example state for item 1, whose unit is \<^verbatim>\<open>Kg(s)\<close> and whose
  quantity is 2.
\<close>

theorem unit_to_Other_and_back_witness:
  "(0::nat) < length (items example_state_B)
   \<and> item_id (items example_state_B ! 0) = 1 \<and> unit (items example_state_B ! 0) = ''Kg(s)''
   \<and> unit (items (handleUnitChange 1 ''Other'' example_state_B) ! 0) = ''Other''
   \<and> items (handleUnitChange 1 ''Kg(s)'' (handleUnitChange 1 ''Other'' example_state_B)) ! 0
       = items example_state_B ! 0
   \<and> quantity (items example_state_B ! 0) = ''2''"
proof -
  have h: "(0::nat) < length (items example_state_B)"
    and a: "item_id (items example_state_B ! 0) = 1 \<and> unit (items example_state_B ! 0) = ''Kg(s)''"
    and q: "quantity (items example_state_B ! 0) = ''2''"
    and o: "unit (items (handleUnitChange 1 ''Other'' example_state_B) ! 0) = ''Other''"
    by (simp_all add: example_state_B_eq handleUnitChange_def)
  note w = unit_to_Other_and_back [of 1 "''Kg(s)''" example_state_B]
  note r = w [THEN conjunct2, THEN conjunct2, rule_format, OF h, THEN conjunct2, THEN conjunct1,
              rule_format, OF a]
  show ?thesis
    by (intro conjI h a [THEN conjunct1] a [THEN conjunct2] o r q)
qed

text \<open>
  Claim C9. With an id that no entry of the list has, each of the three handlers returns
  the state it was given.
\<close>

theorem handlers_with_absent_id:
  assumes "i \<notin> item_id ` set (items s)"
  shows "handleCheckboxChange i s = s \<and> handleUnitChange i u s = s \<and> handleQuantityChange i q s = s"
  using assms
  by (simp add: handleCheckboxChange_def handleUnitChange_def handleQuantityChange_def
      map_keyed_absent)

text \<open>The theorem at the example state, which has no entry with the id 7.\<close>

theorem handlers_with_absent_id_witness:
  "7 \<notin> item_id ` set (items example_state_B)
   \<and> handleCheckboxChange 7 example_state_B = example_state_B
   \<and> handleUnitChange 7 ''Other'' example_state_B = example_state_B
   \<and> handleQuantityChange 7 ''9'' example_state_B = example_state_B"
proof -
  have h: "7 \<notin> item_id ` set (items example_state_B)"
    by (simp add: example_state_B_eq)
  note w = handlers_with_absent_id [OF h, of "''Other''" "''9''"]
  show ?thesis
    by (intro conjI h w [THEN conjunct1] w [THEN conjunct2, THEN conjunct1]
        w [THEN conjunct2, THEN conjunct2])
qed

section \<open>The view\<close>

text \<open>
  Claim C3. When no entry is selected, \<^verbatim>\<open>handleSubmit\<close> leaves the preview flag and the
  entry list as they are and shows the warning notice. When at least one entry is
  selected, it sets the preview flag and changes nothing else.
\<close>

theorem handleSubmit_guard:
  "(getSelectedCount s = 0 \<longrightarrow>
      showPreview (handleSubmit s) = showPreview s \<and> items (handleSubmit s) = items s
      \<and> toast (handleSubmit s) =
          \<lparr>toast_show = True, toast_message = ''Please select at least one item'',
           toast_type = ''warning''\<rparr>)
   \<and> (0 < getSelectedCount s \<longrightarrow>
        showPreview (handleSubmit s) \<and> handleSubmit s = s\<lparr>showPreview := True\<rparr>)"
  by (simp add: handleSubmit_def showToast_def)

text \<open>
  The theorem at the freshly loaded example, where nothing is selected and the view is
  the editing view, and at the example state, where two entries are selected.
\<close>

theorem handleSubmit_guard_witness:
  "getSelectedCount (loadConfig_B (Some example_config) initialState) = 0
   \<and> \<not> showPreview (loadConfig_B (Some example_config) initialState)
   \<and> \<not> showPreview (handleSubmit (loadConfig_B (Some example_config) initialState))
   \<and> toast_type (toast (handleSubmit (loadConfig_B (Some example_config) initialState))) = ''warning''
   \<and> 0 < getSelectedCount example_state_B
   \<and> showPreview (handleSubmit example_state_B)"
proof -
  let ?s = "loadConfig_B (Some example_config) initialState"
  have h0: "getSelectedCount ?s = 0"
    by (simp add: getSelectedCount_def loadConfig_B_def initialItems_B_def)
  have e: "\<not> showPreview ?s"
    by (simp add: loadConfig_B_def initialState_def)
  have h1: "0 < getSelectedCount example_state_B"
    by (simp add: getSelectedCount_def example_selected_B)
  note w0 = handleSubmit_guard [of ?s, THEN conjunct1, rule_format, OF h0]
  note w1 = handleSubmit_guard [of example_state_B, THEN conjunct2, rule_format, OF h1]
  from w0 e have p: "\<not> showPreview (handleSubmit ?s)"
    by simp
  from w0 have t: "toast_type (toast (handleSubmit ?s)) = ''warning''"
    by simp
  show ?thesis
    by (intro conjI h0 e p t h1 w1 [THEN conjunct1])
qed

section \<open>The date\<close>

text \<open>
  Claim C8, as amended. For a date in a year from 1000 to 9999, \<^verbatim>\<open>formatDate\<close> returns
  eleven characters: the two digits of the day (with a leading zero below 10), a hyphen,
  one of the twelve three-letter English month abbreviations, a hyphen, and the four
  digits of the year; the first two and the last four characters are decimal digits. In both variants the download is named \<^verbatim>\<open>grocery-list-\<close>, this
  string for the date read at that moment, and \<^verbatim>\<open>.txt\<close>. The year is written as the
  number it is, so from the year 10000 on it has more than four digits.
\<close>

theorem formatDate_form:
  assumes "1 \<le> getDate date" and "getDate date \<le> 31" and "getMonth date < 12"
    and "1000 \<le> getFullYear date" and "getFullYear date \<le> 9999"
  shows "formatDate date =
           [digit_char (getDate date div 10), digit_char (getDate date mod 10)] @ ''-''
           @ monthShort (getMonth date) @ ''-''
           @ [digit_char (nat (getFullYear date) div 1000),
              digit_char (nat (getFullYear date) div 100 mod 10),
              digit_char (nat (getFullYear date) div 10 mod 10),
              digit_char (nat (getFullYear date) mod 10)]
       \<and> monthShort (getMonth date) \<in> set [''Jan'', ''Feb'', ''Mar'', ''Apr'', ''May'', ''Jun'',
                                           ''Jul'', ''Aug'', ''Sep'', ''Oct'', ''Nov'', ''Dec'']
       \<and> length (formatDate date) = 11
       \<and> set (take 2 (formatDate date)) \<subseteq> set ''0123456789''
       \<and> set (drop 7 (formatDate date)) \<subseteq> set ''0123456789''
       \<and> file_name (fst (handleDownload_A now date s)) = ''grocery-list-'' @ formatDate date @ ''.txt''
       \<and> file_name (fst (handleDownload_B now date s)) = ''grocery-list-'' @ formatDate date @ ''.txt''"
proof -
  have day: "padStart 2 (CHR ''0'') (decimal (getDate date)) =
             [digit_char (getDate date div 10), digit_char (getDate date mod 10)]"
  proof (cases "getDate date < 10")
    case True
    then show ?thesis
      by (simp add: padStart_def decimal_1digit digit_char_def)
  next
    case False
    with assms(2) show ?thesis
      by (simp add: padStart_def decimal_2digit)
  qed
  have year: "decimal_int (getFullYear date) =
     [digit_char (nat (getFullYear date) div 1000), digit_char (nat (getFullYear date) div 100 mod 10),
      digit_char (nat (getFullYear date) div 10 mod 10), digit_char (nat (getFullYear date) mod 10)]"
    using assms(4,5) by (simp add: decimal_int_def decimal_4digit)
  have f: "formatDate date =
           [digit_char (getDate date div 10), digit_char (getDate date mod 10)] @ ''-''
           @ monthShort (getMonth date) @ ''-''
           @ [digit_char (nat (getFullYear date) div 1000),
              digit_char (nat (getFullYear date) div 100 mod 10),
              digit_char (nat (getFullYear date) div 10 mod 10),
              digit_char (nat (getFullYear date) mod 10)]"
    by (simp add: formatDate_def day year Let_def)
  have m: "monthShort (getMonth date) \<in> set [''Jan'', ''Feb'', ''Mar'', ''Apr'', ''May'', ''Jun'',
                                    ''Jul'', ''Aug'', ''Sep'', ''Oct'', ''Nov'', ''Dec'']"
    using assms(3) by (rule monthShort_cases)
  from m have "length (monthShort (getMonth date)) = 3"
    by auto
  then have l3: "length (monthShort (getMonth date)) = 3" .
  then have l: "length (formatDate date) = 11"
    by (simp add: f)
  have dd: "getDate date div 10 < 10" "getDate date mod 10 < 10"
    using assms(2) by simp_all
  have dg: "set (take 2 (formatDate date)) \<subseteq> set ''0123456789''"
    using digit_char_digit [OF dd(1)] digit_char_digit [OF dd(2)] by (simp add: f)
  have yy: "nat (getFullYear date) div 1000 < 10" "nat (getFullYear date) div 100 mod 10 < 10"
    "nat (getFullYear date) div 10 mod 10 < 10" "nat (getFullYear date) mod 10 < 10"
    using assms(5) by simp_all
  have yg: "set (drop 7 (formatDate date)) \<subseteq> set ''0123456789''"
    using digit_char_digit [OF yy(1)] digit_char_digit [OF yy(2)] digit_char_digit [OF yy(3)]
      digit_char_digit [OF yy(4)] l3
    by (simp add: f)
  have da: "file_name (fst (handleDownload_A now date s)) = ''grocery-list-'' @ formatDate date @ ''.txt''"
    by (simp add: handleDownload_A_def Let_def)
  have db: "file_name (fst (handleDownload_B now date s)) = ''grocery-list-'' @ formatDate date @ ''.txt''"
    by (simp add: handleDownload_B_def Let_def)
  show ?thesis
    by (intro conjI f m l dg yg da db)
qed

text \<open>The theorem at the 3rd of November 2026.\<close>

theorem formatDate_form_witness:
  "1 \<le> getDate example_date \<and> getDate example_date \<le> 31 \<and> getMonth example_date < 12
   \<and> 1000 \<le> getFullYear example_date \<and> getFullYear example_date \<le> 9999
   \<and> formatDate example_date = ''03-Nov-2026''
   \<and> file_name (fst (handleDownload_B example_date example_date example_state_B))
       = ''grocery-list-03-Nov-2026.txt''"
proof -
  have h1: "1 \<le> getDate example_date" and h2: "getDate example_date \<le> 31"
    and h3: "getMonth example_date < 12"
    and h4: "1000 \<le> getFullYear example_date" and h5: "getFullYear example_date \<le> 9999"
    by (simp_all add: example_date_def)
  note w = formatDate_form [OF h1 h2 h3 h4 h5, of example_date example_state_B]
  from w [THEN conjunct1] have f: "formatDate example_date = ''03-Nov-2026''"
    by (simp add: example_date_def digit_char_def monthShort_def)
  from w [THEN conjunct2, THEN conjunct2, THEN conjunct2, THEN conjunct2, THEN conjunct2,
          THEN conjunct2]
  have n: "file_name (fst (handleDownload_B example_date example_date example_state_B))
       = ''grocery-list-03-Nov-2026.txt''"
    by (simp add: f)
  show ?thesis
    by (intro conjI h1 h2 h3 h4 h5 f n)
qed

text \<open>
  Claim C8 as it is written fails for a date outside the years 1000 to 9999: on the 1st
  of January 10000 the year part has five digits.
\<close>

theorem formatDate_year_counterexample:
  "formatDate \<lparr>getDate = 1, getMonth = 0, getFullYear = 10000\<rparr> = ''01-Jan-10000''
   \<and> length (formatDate \<lparr>getDate = 1, getMonth = 0, getFullYear = 10000\<rparr>) \<noteq> 11"
  by (simp add: formatDate_def padStart_def monthShort_def decimal_int_def
      decimal.simps digit_char_def)

end
